theory Spec2Isabelle
  imports Main
begin

section \<open>Data model\<close>

text \<open>
  An Article Record, with the fields the debug surface reads from it
  (\<^verbatim>\<open>article.get('title', ...)\<close> and so on in \<^verbatim>\<open>pubmed_debug.py\<close>) and the two
  classification columns the summaries count, which a record may lack.
  The identifier \<open>pmid\<close> is the key of the Store.
\<close>

record article =
  pmid :: string
  title :: string
  authors :: string
  journal :: string
  publication_year :: string
  doi :: string
  study_type :: string
  url :: string
  abstract :: string
  issue :: "string option"
  evidence_level :: "string option"

text \<open>
  The Store is the file \<^verbatim>\<open>papers.csv\<close>: \<open>None\<close> while the file does not exist
  (\<^verbatim>\<open>os.path.exists('papers.csv')\<close> is false), otherwise its rows in order.
\<close>

type_synonym store = "article list option"

section \<open>Incremental Store Merger\<close>

text \<open>
  Dropping duplicate rows by identifier, the first-seen occurrence kept: \<open>seen\<close> holds
  the identifiers of the rows already kept.
\<close>

fun drop_duplicates :: "string list \<Rightarrow> article list \<Rightarrow> article list" where
  "drop_duplicates seen [] = []"
| "drop_duplicates seen (a # as) =
     (if pmid a \<in> set seen then drop_duplicates seen as
      else a # drop_duplicates (pmid a # seen) as)"

text \<open>
  Modelled from the spec: \<^verbatim>\<open>update_papers_csv\<close> is imported from the module
  \<^verbatim>\<open>pubmed_api\<close>, whose source is not part of the repository snapshot. Section 4.2 of
  the specification: load the existing Store; if absent, the result is the new records
  deduplicated by identifier, first occurrence kept; if present, concatenate the existing
  rows with the new rows (existing rows first) and drop duplicates by identifier keeping the
  first-seen occurrence. The result is persisted as the new Store and returned.
\<close>

definition update_papers_csv_spec :: "store \<Rightarrow> article list \<Rightarrow> article list" where
  "update_papers_csv_spec st new_records =
     drop_duplicates [] (case st of None \<Rightarrow> new_records | Some existing \<Rightarrow> existing @ new_records)"

text \<open>A sequence of merges, each persisting its result as the Store the next one loads.\<close>

fun merge_all :: "store \<Rightarrow> article list list \<Rightarrow> store" where
  "merge_all st [] = st"
| "merge_all st (b # bs) = merge_all (Some (update_papers_csv_spec st b)) bs"

section \<open>Python values and exceptions\<close>

text \<open>
  The values the external search and the HTTP probe hand back are decoded JSON: the code
  inspects their shape itself (\<^verbatim>\<open>'esearchresult' in search_results\<close>), so they are
  modelled dynamically. A dict is an association list, looked up with \<open>map_of\<close>.
\<close>

datatype pyval =
    PNone
  | PBool bool
  | PInt int
  | PStr string
  | PList "pyval list"
  | PDict "(string \<times> pyval) list"

text \<open>
  An exception is its class and its message (\<^verbatim>\<open>str(e)\<close>). The messages of the errors
  the interpreter raises are abbreviated.
\<close>

datatype exn_class =
    RequestException
  | JSONDecodeError
  | TypeError
  | KeyError
  | AttributeError
  | FileNotFoundError
  | UnboundLocalError
  | ValueError
  | OverflowError
  | OtherException

datatype exn = Exn exn_class string

fun exn_class_of :: "exn \<Rightarrow> exn_class" where
  "exn_class_of (Exn c msg) = c"

fun str_exn :: "exn \<Rightarrow> string" where
  "str_exn (Exn c msg) = msg"

text \<open>Truth value of a value in a condition (\<^verbatim>\<open>if pmid_list:\<close>).\<close>

fun truthy :: "pyval \<Rightarrow> bool" where
  "truthy PNone = False"
| "truthy (PBool b) = b"
| "truthy (PInt i) = (i \<noteq> 0)"
| "truthy (PStr s) = (s \<noteq> [])"
| "truthy (PList xs) = (xs \<noteq> [])"
| "truthy (PDict kvs) = (kvs \<noteq> [])"

fun substring_in :: "string \<Rightarrow> string \<Rightarrow> bool" where
  "substring_in k [] = (k = [])"
| "substring_in k (c # cs) = (take (length k) (c # cs) = k \<or> substring_in k cs)"

text \<open>
  \<^verbatim>\<open>k in v\<close> for a string \<open>k\<close>: key membership in a dict, element membership in a list,
  substring test in a string, TypeError on a value that is not a container.
\<close>

fun py_in :: "string \<Rightarrow> pyval \<Rightarrow> exn + bool" where
  "py_in k (PDict kvs) = Inr (k \<in> set (map fst kvs))"
| "py_in k (PList xs) = Inr (PStr k \<in> set xs)"
| "py_in k (PStr s) = Inr (substring_in k s)"
| "py_in k PNone = Inl (Exn TypeError ''argument of type NoneType is not iterable'')"
| "py_in k (PBool b) = Inl (Exn TypeError ''argument of type bool is not iterable'')"
| "py_in k (PInt i) = Inl (Exn TypeError ''argument of type int is not iterable'')"

text \<open>\<^verbatim>\<open>v[k]\<close> for a string \<open>k\<close>.\<close>

fun py_getitem :: "pyval \<Rightarrow> string \<Rightarrow> exn + pyval" where
  "py_getitem (PDict kvs) k =
     (case map_of kvs k of Some v \<Rightarrow> Inr v | None \<Rightarrow> Inl (Exn KeyError k))"
| "py_getitem (PList xs) k = Inl (Exn TypeError ''list indices must be integers or slices, not str'')"
| "py_getitem (PStr s) k = Inl (Exn TypeError ''string indices must be integers, not str'')"
| "py_getitem PNone k = Inl (Exn TypeError ''NoneType object is not subscriptable'')"
| "py_getitem (PBool b) k = Inl (Exn TypeError ''bool object is not subscriptable'')"
| "py_getitem (PInt i) k = Inl (Exn TypeError ''int object is not subscriptable'')"

text \<open>\<^verbatim>\<open>v.get(k, default)\<close>: only a dict has the method.\<close>

fun py_get :: "pyval \<Rightarrow> string \<Rightarrow> pyval \<Rightarrow> exn + pyval" where
  "py_get (PDict kvs) k dflt = Inr (case map_of kvs k of Some v \<Rightarrow> v | None \<Rightarrow> dflt)"
| "py_get PNone k dflt = Inl (Exn AttributeError ''NoneType object has no attribute get'')"
| "py_get (PBool b) k dflt = Inl (Exn AttributeError ''bool object has no attribute get'')"
| "py_get (PInt i) k dflt = Inl (Exn AttributeError ''int object has no attribute get'')"
| "py_get (PStr s) k dflt = Inl (Exn AttributeError ''str object has no attribute get'')"
| "py_get (PList xs) k dflt = Inl (Exn AttributeError ''list object has no attribute get'')"

text \<open>\<^verbatim>\<open>len(v)\<close>.\<close>

fun py_len :: "pyval \<Rightarrow> exn + nat" where
  "py_len (PStr s) = Inr (length s)"
| "py_len (PList xs) = Inr (length xs)"
| "py_len (PDict kvs) = Inr (length kvs)"
| "py_len PNone = Inl (Exn TypeError ''object of type NoneType has no len()'')"
| "py_len (PBool b) = Inl (Exn TypeError ''object of type bool has no len()'')"
| "py_len (PInt i) = Inl (Exn TypeError ''object of type int has no len()'')"

text \<open>\<^verbatim>\<open>sep.join(v)\<close>: every item must be a string.\<close>

fun join :: "string \<Rightarrow> string list \<Rightarrow> string" where
  "join sep [] = []"
| "join sep [s] = s"
| "join sep (s # t # ss) = s @ sep @ join sep (t # ss)"

fun str_items :: "pyval list \<Rightarrow> exn + string list" where
  "str_items [] = Inr []"
| "str_items (PStr s # vs) =
     (case str_items vs of Inl e \<Rightarrow> Inl e | Inr ss \<Rightarrow> Inr (s # ss))"
| "str_items (v # vs) = Inl (Exn TypeError ''sequence item: expected str instance'')"

fun py_join :: "string \<Rightarrow> pyval \<Rightarrow> exn + string" where
  "py_join sep (PList xs) =
     (case str_items xs of Inl e \<Rightarrow> Inl e | Inr ss \<Rightarrow> Inr (join sep ss))"
| "py_join sep (PStr s) = Inr (join sep (map (\<lambda>c. [c]) s))"
| "py_join sep (PDict kvs) = Inr (join sep (map fst kvs))"
| "py_join sep PNone = Inl (Exn TypeError ''can only join an iterable'')"
| "py_join sep (PBool b) = Inl (Exn TypeError ''can only join an iterable'')"
| "py_join sep (PInt i) = Inl (Exn TypeError ''can only join an iterable'')"

section \<open>Effects\<close>

text \<open>
  The lines \<^verbatim>\<open>batch_fetch_articles\<close> prints, one constructor per \<^verbatim>\<open>print\<close> of the
  source, with the values it formats. Printing is taken to return normally.
\<close>

datatype log_line =
    LKeyFound
  | LKeyMissing
  | LKeyHint
  | LStart nat
  | LKeyword nat nat string
  | LSearching
  | LFound nat
  | LFetchingDetails
  | LNewAdded int
  | LAdded int
  | LDetailFailed
  | LNoResults
  | LInvalidFormat pyval
  | LError string
  | LWaiting int
  | LDone int int
  | LStatsHeader
  | LStats nat
  | LIssueHeader
  | LIssueCount string nat
  | LEvidenceHeader
  | LEvidenceCount string nat
  | LStatsError string

text \<open>
  What the program does to the outside, in order: calls of the search, of the detail
  fetch, of the merge and of \<^verbatim>\<open>time.sleep\<close>, reads of the Store file, the HTTP request
  of the connectivity probe, printed lines. A call is recorded when it is made, whether it
  then returns or raises.
\<close>

datatype event =
    Search string int int
  | Detail pyval
  | Merge "article list"
  | Sleep int
  | ReadCsv
  | HttpGet
  | Print log_line

record world =
  store :: store
  trace :: "event list"

definition emit :: "event \<Rightarrow> world \<Rightarrow> world" where
  "emit e w = w\<lparr>trace := trace w @ [e]\<rparr>"

text \<open>
  \<^verbatim>\<open>time.sleep(secs)\<close> for an integer: a negative length raises ValueError, and a
  length whose nanoseconds do not fit in the interpreter's signed 64-bit clock (more than
  9223372036 seconds) raises OverflowError; otherwise the call suspends and returns.
\<close>

definition sleepable :: "int \<Rightarrow> bool" where
  "sleepable secs = (0 \<le> secs \<and> secs \<le> 9223372036)"

definition sleep_error :: "int \<Rightarrow> exn" where
  "sleep_error secs =
     (if secs < 0 then Exn ValueError ''sleep length must be non-negative''
      else Exn OverflowError ''timestamp too large to convert to C PyTime_t'')"

definition time_sleep :: "int \<Rightarrow> world \<Rightarrow> (exn + unit) \<times> world" where
  "time_sleep secs w =
     (if sleepable secs then (Inr (), emit (Sleep secs) w)
      else (Inl (sleep_error secs), emit (Sleep secs) w))"

text \<open>The HTTP response of \<^verbatim>\<open>requests.get\<close>: \<open>json_body\<close> is \<open>None\<close> when the body is not JSON.\<close>

record response =
  status_code :: int
  body_text :: string
  json_body :: "pyval option"

text \<open>
  The collaborators the two modules import or call and whose code is outside the
  repository snapshot are parameters: the search, the detail fetch and the merge of
  \<^verbatim>\<open>pubmed_api\<close>, the environment variable, and the HTTP request. Each may depend on the
  world as it is at the call (the Store and everything done so far), and each may raise.
  The merge gives back what it returned or raised together with the Store it left.
\<close>

record env =
  fetch_pubmed_studies :: "world \<Rightarrow> string \<Rightarrow> int \<Rightarrow> int \<Rightarrow> exn + pyval"
  get_pubmed_article_details :: "world \<Rightarrow> pyval \<Rightarrow> exn + article list"
  update_papers_csv :: "world \<Rightarrow> article list \<Rightarrow> (exn + article list) \<times> store"
  NCBI_API_KEY :: "string option"
  requests_get :: "world \<Rightarrow> exn + response"

section \<open>Fetch Orchestrator (\<^verbatim>\<open>batch_pubmed_fetch.py\<close>)\<close>

definition ORTHO_KEYWORDS :: "string list" where
  "ORTHO_KEYWORDS =
    [''dental crowding evidence'',
     ''open bite treatment orthodontic'',
     ''deep bite treatment orthodontic'',
     ''crossbite treatment evidence'',
     ''overjet treatment orthodontic'',
     ''underbite treatment evidence'',
     ''orthodontic treatment timing children'',
     ''orthodontic treatment timing adolescent'',
     ''orthodontic treatment timing adult'',
     ''orthodontic treatment elderly'',
     ''malocclusion risk untreated'',
     ''orthodontic treatment long term effect'',
     ''dental crowding oral health risk'',
     ''malocclusion periodontal risk'',
     ''malocclusion caries risk'',
     ''orthodontic treatment cost effectiveness'',
     ''orthodontic systematic review'',
     ''orthodontic meta-analysis'',
     ''malocclusion randomized controlled trial'',
     ''orthodontic treatment cohort study'',
     ''japanese orthodontic treatment'',
     ''asian orthodontic treatment'',
     ''japanese malocclusion prevalence'']"

text \<open>
  Lines 77 to 85: \<^verbatim>\<open>if api_key:\<close> holds for a variable that is set and not empty.
  \<^verbatim>\<open>//\<close> is floor division, as \<open>div\<close> on \<open>int\<close> is.
\<close>

definition api_key_set :: "string option \<Rightarrow> bool" where
  "api_key_set api_key = (case api_key of None \<Rightarrow> False | Some k \<Rightarrow> k \<noteq> [])"

definition actual_pause :: "string option \<Rightarrow> int \<Rightarrow> int" where
  "actual_pause api_key pause_seconds =
     (if api_key_set api_key then max 1 (pause_seconds div 3) else pause_seconds)"

text \<open>
  The two running totals of the loop: \<open>(total_articles, total_new_articles)\<close>.
\<close>

type_synonym totals = "int \<times> int"

text \<open>
  Lines 109 to 124, reached with a non-empty \<open>articles\<close>: the merge and the tallies. When
  the merge raises, no total has been touched.
\<close>

definition merge_and_tally :: "env \<Rightarrow> article list \<Rightarrow> totals \<Rightarrow> world \<Rightarrow> (exn + totals) \<times> world" where
  "merge_and_tally E articles tot w =
     (let csv_exists = (store w \<noteq> None);
          w1 = emit (Merge articles) w
      in case update_papers_csv E w articles of
           (Inl e, st) \<Rightarrow> (Inl e, w1\<lparr>store := st\<rparr>)
         | (Inr updated_df, st) \<Rightarrow>
             (let w2 = w1\<lparr>store := st\<rparr>;
                  n = int (length articles)
              in if csv_exists
                 then (let new_articles = n - (int (length updated_df) - n)
                       in (Inr (fst tot + n, snd tot + new_articles),
                           emit (Print (LNewAdded new_articles)) w2))
                 else (Inr (fst tot + n, snd tot + n), emit (Print (LAdded n)) w2)))"

text \<open>Lines 100 to 128: what is done with the identifier list.\<close>

definition handle_pmid_list :: "env \<Rightarrow> pyval \<Rightarrow> totals \<Rightarrow> world \<Rightarrow> (exn + totals) \<times> world" where
  "handle_pmid_list E pmid_list tot w =
     (if truthy pmid_list
      then (case py_len pmid_list of
              Inl e \<Rightarrow> (Inl e, w)
            | Inr n \<Rightarrow>
                (let w1 = emit (Print LFetchingDetails) (emit (Print (LFound n)) w);
                     w2 = emit (Detail pmid_list) w1
                 in case get_pubmed_article_details E w1 pmid_list of
                      Inl e \<Rightarrow> (Inl e, w2)
                    | Inr articles \<Rightarrow>
                        if articles \<noteq> [] then merge_and_tally E articles tot w2
                        else (Inr tot, emit (Print LDetailFailed) w2)))
      else (Inr tot, emit (Print LNoResults) w))"

text \<open>
  Line 97: \<^verbatim>\<open>'esearchresult' in search_results and 'idlist' in search_results['esearchresult']\<close>,
  the second operand evaluated only when the first holds.
\<close>

definition has_idlist :: "pyval \<Rightarrow> exn + bool" where
  "has_idlist search_results =
     (case py_in ''esearchresult'' search_results of
        Inl e \<Rightarrow> Inl e
      | Inr False \<Rightarrow> Inr False
      | Inr True \<Rightarrow>
          (case py_getitem search_results ''esearchresult'' of
             Inl e \<Rightarrow> Inl e
           | Inr r \<Rightarrow> py_in ''idlist'' r))"

text \<open>Line 98: \<^verbatim>\<open>search_results['esearchresult']['idlist']\<close>.\<close>

definition get_idlist :: "pyval \<Rightarrow> exn + pyval" where
  "get_idlist search_results =
     (case py_getitem search_results ''esearchresult'' of
        Inl e \<Rightarrow> Inl e
      | Inr r \<Rightarrow> py_getitem r ''idlist'')"

text \<open>Lines 93 to 130: the body of the \<^verbatim>\<open>try\<close>, up to the first exception.\<close>

definition try_body :: "env \<Rightarrow> int \<Rightarrow> int \<Rightarrow> string \<Rightarrow> totals \<Rightarrow> world \<Rightarrow> (exn + totals) \<times> world" where
  "try_body E max_per_keyword days_recent keyword tot w =
     (let w1 = emit (Print LSearching) w;
          w2 = emit (Search keyword max_per_keyword days_recent) w1
      in case fetch_pubmed_studies E w1 keyword max_per_keyword days_recent of
           Inl e \<Rightarrow> (Inl e, w2)
         | Inr search_results \<Rightarrow>
             (case has_idlist search_results of
                Inl e \<Rightarrow> (Inl e, w2)
              | Inr False \<Rightarrow> (Inr tot, emit (Print (LInvalidFormat search_results)) w2)
              | Inr True \<Rightarrow>
                  (case get_idlist search_results of
                     Inl e \<Rightarrow> (Inl e, w2)
                   | Inr pmid_list \<Rightarrow> handle_pmid_list E pmid_list tot w2)))"

text \<open>Lines 92 to 133: \<^verbatim>\<open>try: ... except Exception as e: print(...)\<close>.\<close>

definition process_keyword :: "env \<Rightarrow> int \<Rightarrow> int \<Rightarrow> string \<Rightarrow> totals \<Rightarrow> world \<Rightarrow> totals \<times> world" where
  "process_keyword E max_per_keyword days_recent keyword tot w =
     (case try_body E max_per_keyword days_recent keyword tot w of
        (Inr tot', w') \<Rightarrow> (tot', w')
      | (Inl e, w') \<Rightarrow> (tot, emit (Print (LError (str_exn e))) w'))"

text \<open>
  Lines 89 to 138: one round of \<^verbatim>\<open>for i, keyword in enumerate(keywords)\<close>, \<open>n\<close> being
  \<^verbatim>\<open>len(keywords)\<close>. The suspension of line 138 is outside the \<^verbatim>\<open>try\<close>: what it
  raises ends the round, and with it the loop and the function.
\<close>

definition loop_body ::
    "env \<Rightarrow> int \<Rightarrow> int \<Rightarrow> int \<Rightarrow> nat \<Rightarrow> nat \<times> string \<Rightarrow> totals \<times> world \<Rightarrow> (exn + totals) \<times> world" where
  "loop_body E max_per_keyword days_recent pause n ik s =
     (let i = fst ik; keyword = snd ik;
          w1 = emit (Print (LKeyword (i + 1) n keyword)) (snd s);
          s2 = process_keyword E max_per_keyword days_recent keyword (fst s) w1
      in if int i < int n - 1
         then (case time_sleep pause (emit (Print (LWaiting pause)) (snd s2)) of
                 (Inl e, w') \<Rightarrow> (Inl e, w')
               | (Inr u, w') \<Rightarrow> (Inr (fst s2), w'))
         else (Inr (fst s2), snd s2))"

text \<open>The loop over the enumerated keywords, left at the first exception of a round.\<close>

fun for_loop ::
    "env \<Rightarrow> int \<Rightarrow> int \<Rightarrow> int \<Rightarrow> nat \<Rightarrow> (nat \<times> string) list \<Rightarrow> totals \<times> world \<Rightarrow> (exn + totals) \<times> world" where
  "for_loop E max_per_keyword days_recent pause n [] s = (Inr (fst s), snd s)"
| "for_loop E max_per_keyword days_recent pause n (ik # rest) s =
     (case loop_body E max_per_keyword days_recent pause n ik s of
        (Inl e, w') \<Rightarrow> (Inl e, w')
      | (Inr tot, w') \<Rightarrow> for_loop E max_per_keyword days_recent pause n rest (tot, w'))"

text \<open>
  \<^verbatim>\<open>value_counts()\<close> of a column: the distinct values with the number of rows holding
  each, by decreasing count. Values of equal count are kept in order of first appearance;
  the library leaves that order open.
\<close>

fun count_values :: "string list \<Rightarrow> (string \<times> nat) list" where
  "count_values [] = []"
| "count_values (v # vs) =
     (v, Suc (length (filter (\<lambda>x. x = v) vs))) # count_values (filter (\<lambda>x. x \<noteq> v) vs)"

definition value_counts :: "string list \<Rightarrow> (string \<times> nat) list" where
  "value_counts vs = sort_key (\<lambda>vc. - int (snd vc)) (count_values vs)"

text \<open>
  Lines 148 to 152 and 154 to 158: the counts of one classification column. The column is
  in the table when some row has a value in it; rows without a value are not counted.
\<close>

definition print_counts ::
    "log_line \<Rightarrow> (string \<Rightarrow> nat \<Rightarrow> log_line) \<Rightarrow> string list \<Rightarrow> world \<Rightarrow> world" where
  "print_counts header line vs w =
     (if vs = [] then w
      else fold (\<lambda>vc. emit (Print (line (fst vc) (snd vc)))) (value_counts vs)
             (emit (Print header) w))"

text \<open>
  Lines 143 to 160: the summary read of the Store, inside its own \<^verbatim>\<open>try\<close>. Reading a
  file that does not exist raises, which is caught and printed.
\<close>

definition print_statistics :: "world \<Rightarrow> world" where
  "print_statistics w =
     (let w1 = emit ReadCsv w
      in case store w of
           None \<Rightarrow> emit (Print (LStatsError ''No such file or directory: papers.csv'')) w1
         | Some db_df \<Rightarrow>
             print_counts LEvidenceHeader LEvidenceCount (List.map_filter evidence_level db_df)
               (print_counts LIssueHeader LIssueCount (List.map_filter issue db_df)
                 (emit (Print (LStats (length db_df))) (emit (Print LStatsHeader) w1))))"

text \<open>Lines 70 and 71: \<^verbatim>\<open>if keywords is None: keywords = ORTHO_KEYWORDS\<close>.\<close>

definition keywords_or_default :: "string list option \<Rightarrow> string list" where
  "keywords_or_default keywords_arg =
     (case keywords_arg of None \<Rightarrow> ORTHO_KEYWORDS | Some ks \<Rightarrow> ks)"

text \<open>
  The whole function. An exception that leaves the loop leaves the function: the closing
  line and the summary are not reached.
\<close>

definition batch_fetch_articles ::
    "env \<Rightarrow> string list option \<Rightarrow> int \<Rightarrow> int \<Rightarrow> int \<Rightarrow> world \<Rightarrow> (exn + int) \<times> world" where
  "batch_fetch_articles E keywords_arg max_per_keyword days_recent pause_seconds w =
     (let keywords = keywords_or_default keywords_arg;
          api_key = NCBI_API_KEY E;
          w1 = (if api_key_set api_key then emit (Print LKeyFound) w
                else emit (Print LKeyHint) (emit (Print LKeyMissing) w));
          pause = actual_pause api_key pause_seconds;
          w2 = emit (Print (LStart (length keywords))) w1
      in case for_loop E max_per_keyword days_recent pause (length keywords)
                (enumerate 0 keywords) ((0, 0), w2) of
           (Inl e, w') \<Rightarrow> (Inl e, w')
         | (Inr tot, w') \<Rightarrow>
             (Inr (snd tot), print_statistics (emit (Print (LDone (fst tot) (snd tot))) w')))"

section \<open>Connectivity and ad-hoc search probes (\<^verbatim>\<open>pubmed_debug.py\<close>)\<close>

text \<open>
  The dict a probe returns. The status is the string of the source; the message is one of
  the fixed texts of the source, named here in English; the details are the formatted
  values.
\<close>

datatype message =
    MConnectionOk
  | MUnexpectedFormat
  | MConnectionFailed
  | MNotJson
  | MSearchInvalid
  | MNoHits
  | MDetailFailed
  | MFetched nat
  | MSearchError

datatype details =
    DStr string
  | DVersion int pyval
  | DResponse int string
  | DValue pyval
  | DKeyword string
  | DPmids string
  | DArticles "article list"

record probe_result =
  status :: string
  message :: message
  details :: details
  pmid_list :: "pyval option"

text \<open>\<^verbatim>\<open>response.raise_for_status()\<close>: an HTTPError, a RequestException, on a 4xx or 5xx status.\<close>

definition raise_for_status :: "response \<Rightarrow> exn + unit" where
  "raise_for_status r =
     (if 400 \<le> status_code r \<and> status_code r < 600
      then Inl (Exn RequestException ''HTTPError'') else Inr ())"

text \<open>
  Lines 15 to 31, with the response in hand. The default of the inner \<^verbatim>\<open>get\<close> is the
  source's word for "unknown".
\<close>

definition connection_body :: "response \<Rightarrow> exn + probe_result" where
  "connection_body r =
     (case raise_for_status r of
        Inl e \<Rightarrow> Inl e
      | Inr u \<Rightarrow>
          (case json_body r of
             None \<Rightarrow> Inl (Exn JSONDecodeError ''Expecting value'')
           | Some result \<Rightarrow>
               (case py_in ''einforesult'' result of
                  Inl e \<Rightarrow> Inl e
                | Inr True \<Rightarrow>
                    (case py_get result ''einforesult'' (PDict []) of
                       Inl e \<Rightarrow> Inl e
                     | Inr info \<Rightarrow>
                         (case py_get info ''version'' (PStr ''unknown'') of
                            Inl e \<Rightarrow> Inl e
                          | Inr v \<Rightarrow>
                              Inr \<lparr>status = ''success'', message = MConnectionOk,
                                   details = DVersion (status_code r) v, pmid_list = None\<rparr>))
                | Inr False \<Rightarrow>
                    Inr \<lparr>status = ''warning'', message = MUnexpectedFormat,
                         details = DResponse (status_code r) (take 200 (body_text r)),
                         pmid_list = None\<rparr>)))"

text \<open>
  Lines 32 to 43: the two \<^verbatim>\<open>except\<close> clauses, tried in order; an exception of another
  class leaves the function. The second clause formats \<^verbatim>\<open>response\<close>, which is unbound
  when the request itself raised.
\<close>

definition connection_except :: "response option \<Rightarrow> exn \<Rightarrow> exn + probe_result" where
  "connection_except resp e =
     (if exn_class_of e = RequestException
      then Inr \<lparr>status = ''error'', message = MConnectionFailed,
                details = DStr (str_exn e), pmid_list = None\<rparr>
      else if exn_class_of e = JSONDecodeError
      then (case resp of
              Some r \<Rightarrow>
                Inr \<lparr>status = ''error'', message = MNotJson,
                     details = DResponse (status_code r) (take 200 (body_text r)),
                     pmid_list = None\<rparr>
            | None \<Rightarrow> Inl (Exn UnboundLocalError ''response''))
      else Inl e)"

definition test_pubmed_connection :: "env \<Rightarrow> world \<Rightarrow> (exn + probe_result) \<times> world" where
  "test_pubmed_connection E w =
     (let w1 = emit HttpGet w
      in case requests_get E w of
           Inl e \<Rightarrow> (connection_except None e, w1)
         | Inr r \<Rightarrow>
             (case connection_body r of
                Inl e \<Rightarrow> (connection_except (Some r) e, w1)
              | Inr res \<Rightarrow> (Inr res, w1)))"

text \<open>Line 72: \<^verbatim>\<open>search_results.get('esearchresult', {}).get('idlist', [])\<close>.\<close>

definition idlist_or_empty :: "pyval \<Rightarrow> exn + pyval" where
  "idlist_or_empty search_results =
     (case py_get search_results ''esearchresult'' (PDict []) of
        Inl e \<Rightarrow> Inl e
      | Inr r \<Rightarrow> py_get r ''idlist'' (PList []))"

text \<open>Lines 62 to 97: the body of the \<^verbatim>\<open>try\<close> of \<^verbatim>\<open>perform_test_search\<close>.\<close>

definition test_search_body :: "env \<Rightarrow> string \<Rightarrow> int \<Rightarrow> world \<Rightarrow> (exn + probe_result) \<times> world" where
  "test_search_body E keyword max_results w =
     (let w1 = emit (Search keyword max_results 30) w;
          invalid = (\<lambda>v. \<lparr>status = ''error'', message = MSearchInvalid,
                           details = DValue v, pmid_list = None\<rparr>)
      in case fetch_pubmed_studies E w keyword max_results 30 of
           Inl e \<Rightarrow> (Inl e, w1)
         | Inr search_results \<Rightarrow>
             if truthy search_results
             then (case py_in ''esearchresult'' search_results of
                     Inl e \<Rightarrow> (Inl e, w1)
                   | Inr False \<Rightarrow> (Inr (invalid search_results), w1)
                   | Inr True \<Rightarrow>
                       (case idlist_or_empty search_results of
                          Inl e \<Rightarrow> (Inl e, w1)
                        | Inr ids \<Rightarrow>
                            if truthy ids
                            then (let w2 = emit (Detail ids) w1
                                  in case get_pubmed_article_details E w1 ids of
                                       Inl e \<Rightarrow> (Inl e, w2)
                                     | Inr articles \<Rightarrow>
                                         if articles \<noteq> []
                                         then (Inr \<lparr>status = ''success'',
                                                    message = MFetched (length articles),
                                                    details = DArticles articles,
                                                    pmid_list = Some ids\<rparr>, w2)
                                         else (case py_join '', '' ids of
                                                 Inl e \<Rightarrow> (Inl e, w2)
                                               | Inr joined \<Rightarrow>
                                                   (Inr \<lparr>status = ''warning'',
                                                         message = MDetailFailed,
                                                         details = DPmids joined,
                                                         pmid_list = None\<rparr>, w2)))
                            else (Inr \<lparr>status = ''warning'', message = MNoHits,
                                       details = DKeyword keyword, pmid_list = None\<rparr>, w1)))
             else (Inr (invalid search_results), w1))"

text \<open>Lines 61 to 104: \<^verbatim>\<open>try: ... except Exception as e: return {...}\<close>.\<close>

definition perform_test_search :: "env \<Rightarrow> string \<Rightarrow> int \<Rightarrow> world \<Rightarrow> probe_result \<times> world" where
  "perform_test_search E keyword max_results w =
     (case test_search_body E keyword max_results w of
        (Inr res, w') \<Rightarrow> (res, w')
      | (Inl e, w') \<Rightarrow>
          (\<lparr>status = ''error'', message = MSearchError,
            details = DStr (str_exn e), pmid_list = None\<rparr>, w'))"

section \<open>Concrete scenarios\<close>

text \<open>A record with a given identifier, and the search result carrying given identifiers.\<close>

definition article_of :: "string \<Rightarrow> article" where
  "article_of i =
     \<lparr>pmid = i, title = [], authors = [], journal = [], publication_year = [], doi = [],
      study_type = [], url = [], abstract = [], issue = None, evidence_level = None\<rparr>"

definition search_result_of :: "pyval \<Rightarrow> pyval" where
  "search_result_of ids = PDict [(''esearchresult'', PDict [(''idlist'', ids)])]"

fun articles_for :: "pyval list \<Rightarrow> article list" where
  "articles_for [] = []"
| "articles_for (PStr i # vs) = article_of i # articles_for vs"
| "articles_for (v # vs) = articles_for vs"

text \<open>The merge of the specification as a collaborator: it never raises and persists its result.\<close>

definition merge_per_spec :: "world \<Rightarrow> article list \<Rightarrow> (exn + article list) \<times> store" where
  "merge_per_spec w new_records =
     (Inr (update_papers_csv_spec (store w) new_records),
      Some (update_papers_csv_spec (store w) new_records))"

text \<open>
  A search that answers by keyword: \<open>a\<close> finds the identifiers 1 and 2, \<open>b\<close> finds 2,
  \<open>c\<close> finds 3, \<open>bad\<close> answers without the expected shape, \<open>null\<close> answers
  \<^verbatim>\<open>None\<close>, \<open>ghost\<close> finds an identifier that has no details, \<open>crash\<close> finds one on
  which the detail fetch raises, \<open>odd\<close> finds a number where an identifier string is
  expected, \<open>boom\<close> raises, and every other keyword finds nothing.
\<close>

definition demo_search :: "world \<Rightarrow> string \<Rightarrow> int \<Rightarrow> int \<Rightarrow> exn + pyval" where
  "demo_search w k m d =
     (if k = ''a'' then Inr (search_result_of (PList [PStr ''1'', PStr ''2'']))
      else if k = ''b'' then Inr (search_result_of (PList [PStr ''2'']))
      else if k = ''c'' then Inr (search_result_of (PList [PStr ''3'']))
      else if k = ''bad'' then Inr (PDict [(''error'', PStr ''API rate limit exceeded'')])
      else if k = ''null'' then Inr PNone
      else if k = ''ghost'' then Inr (search_result_of (PList [PStr ''0'']))
      else if k = ''crash'' then Inr (search_result_of (PList [PStr ''9'']))
      else if k = ''odd'' then Inr (search_result_of (PList [PInt 7]))
      else if k = ''boom'' then Inl (Exn RequestException ''connection timed out'')
      else Inr (search_result_of (PList [])))"

definition demo_detail :: "world \<Rightarrow> pyval \<Rightarrow> exn + article list" where
  "demo_detail w ids =
     (case ids of
        PList vs \<Rightarrow>
          if vs = [PStr ''0''] then Inr []
          else if vs = [PStr ''9''] then Inl (Exn RequestException ''efetch: HTTP 502'')
          else Inr (articles_for vs)
      | v \<Rightarrow> Inl (Exn TypeError ''identifier list expected''))"

text \<open>An HTTP 200 response with a given body and what the body decodes to.\<close>

definition ok_response :: "string \<Rightarrow> pyval option \<Rightarrow> response" where
  "ok_response body j = \<lparr>status_code = 200, body_text = body, json_body = j\<rparr>"

definition demo_env :: "string option \<Rightarrow> exn + response \<Rightarrow> env" where
  "demo_env key r =
     \<lparr>fetch_pubmed_studies = demo_search,
      get_pubmed_article_details = demo_detail,
      update_papers_csv = merge_per_spec,
      NCBI_API_KEY = key,
      requests_get = (\<lambda>w. r)\<rparr>"


definition offline :: "exn + response" where
  "offline = Inl (Exn RequestException ''Name or service not known'')"

definition empty_world :: world where
  "empty_world = \<lparr>store = None, trace = []\<rparr>"

definition one_row_world :: world where
  "one_row_world = \<lparr>store = Some [article_of ''1''], trace = []\<rparr>"

section \<open>Reading the trace\<close>


fun is_detail :: "event \<Rightarrow> bool" where
  "is_detail (Detail ids) = True"
| "is_detail e = False"

fun is_merge :: "event \<Rightarrow> bool" where
  "is_merge (Merge rs) = True"
| "is_merge e = False"


fun is_call :: "event \<Rightarrow> bool" where
  "is_call (Search k m d) = True"
| "is_call (Detail ids) = True"
| "is_call (Merge rs) = True"
| "is_call (Sleep p) = True"
| "is_call e = False"

fun is_search_or_sleep :: "event \<Rightarrow> bool" where
  "is_search_or_sleep (Search k m d) = True"
| "is_search_or_sleep (Sleep p) = True"
| "is_search_or_sleep e = False"





section \<open>Properties of the merger\<close>

lemma drop_duplicates_fresh:
  "x \<in> set (drop_duplicates seen xs) \<Longrightarrow> pmid x \<notin> set seen"
proof (induction xs arbitrary: seen)
  case Nil
  then show ?case by simp
next
  case (Cons a as)
  show ?case
  proof (cases "pmid a \<in> set seen")
    case True
    with Cons show ?thesis by simp
  next
    case False
    with Cons.prems have "x = a \<or> x \<in> set (drop_duplicates (pmid a # seen) as)"
      by simp
    then show ?thesis
    proof
      assume "x = a"
      with False show ?thesis by simp
    next
      assume "x \<in> set (drop_duplicates (pmid a # seen) as)"
      then have "pmid x \<notin> set (pmid a # seen)" by (rule Cons.IH)
      then show ?thesis by simp
    qed
  qed
qed

lemma drop_duplicates_distinct:
  "distinct (map pmid (drop_duplicates seen xs))"
proof (induction xs arbitrary: seen)
  case Nil
  show ?case by simp
next
  case (Cons a as)
  have "pmid a \<notin> pmid ` set (drop_duplicates (pmid a # seen) as)"
    using drop_duplicates_fresh [of _ "pmid a # seen" as] by fastforce
  with Cons show ?case by simp
qed

lemma merge_all_snoc:
  "merge_all st (bs @ [b]) = Some (update_papers_csv_spec (merge_all st bs) b)"
  by (induction bs arbitrary: st) simp_all

text \<open>
  Claim C1. After every merge of a batch into the Store, no two rows of the persisted Store
  share an identifier: whatever the Store \<open>st\<close> held at the start (absent, or any rows),
  whatever batches \<open>bs\<close> were merged before, and whatever the batch \<open>b\<close> contains
  (identifiers repeated inside it, or already in the Store), the Store after merging \<open>b\<close>
  has pairwise distinct identifiers.
\<close>

theorem merge_no_duplicate_identifiers:
  "merge_all st (bs @ [b]) = Some (update_papers_csv_spec (merge_all st bs) b) \<and>
   distinct (map pmid (update_papers_csv_spec (merge_all st bs) b))"
  by (simp add: merge_all_snoc update_papers_csv_spec_def drop_duplicates_distinct)

section \<open>Properties of the orchestrator\<close>








lemma fold_emit_prints:
  "fold (\<lambda>vc. emit (Print (line (fst vc) (snd vc)))) xs w =
     w\<lparr>trace := trace w @ map Print (map (\<lambda>vc. line (fst vc) (snd vc)) xs)\<rparr>"
  by (induction xs arbitrary: w) (simp_all add: emit_def)

lemma print_counts_trace:
  "\<exists>ls. print_counts header line vs w = w\<lparr>trace := trace w @ map Print ls\<rparr>"
proof (cases "vs = []")
  case True
  then have "print_counts header line vs w = w\<lparr>trace := trace w @ map Print []\<rparr>"
    by (simp add: print_counts_def)
  then show ?thesis by blast
next
  case False
  then have "print_counts header line vs w =
      w\<lparr>trace := trace w @ map Print (header # map (\<lambda>vc. line (fst vc) (snd vc)) (value_counts vs))\<rparr>"
    by (simp add: print_counts_def fold_emit_prints emit_def)
  then show ?thesis by blast
qed

lemma print_statistics_trace:
  "\<exists>ls. ls \<noteq> [] \<and> print_statistics w = w\<lparr>trace := trace w @ ReadCsv # map Print ls\<rparr>"
proof (cases "store w")
  case None
  then have "print_statistics w =
      w\<lparr>trace := trace w @ ReadCsv # map Print [LStatsError ''No such file or directory: papers.csv'']\<rparr>"
    by (simp add: print_statistics_def Let_def emit_def)
  then show ?thesis by blast
next
  case (Some db_df)
  define w1 where "w1 = emit (Print (LStats (length db_df))) (emit (Print LStatsHeader) (emit ReadCsv w))"
  obtain ls1 where ls1: "print_counts LIssueHeader LIssueCount (List.map_filter issue db_df) w1 =
      w1\<lparr>trace := trace w1 @ map Print ls1\<rparr>"
    using print_counts_trace by blast
  obtain ls2 where ls2: "print_counts LEvidenceHeader LEvidenceCount (List.map_filter evidence_level db_df)
        (w1\<lparr>trace := trace w1 @ map Print ls1\<rparr>) =
      (w1\<lparr>trace := trace w1 @ map Print ls1\<rparr>)\<lparr>trace := trace (w1\<lparr>trace := trace w1 @ map Print ls1\<rparr>) @ map Print ls2\<rparr>"
    using print_counts_trace by blast
  have "print_statistics w =
      w\<lparr>trace := trace w @ ReadCsv # map Print (LStatsHeader # LStats (length db_df) # ls1 @ ls2)\<rparr>"
    using Some ls1 ls2 by (simp add: print_statistics_def Let_def w1_def [symmetric])
      (simp add: w1_def emit_def)
  then show ?thesis by blast
qed

lemma print_statistics_quiet:
  "store (print_statistics w) = store w"
  "filter is_search_or_sleep (trace (print_statistics w)) = filter is_search_or_sleep (trace w)"
  "filter is_call (trace (print_statistics w)) = filter is_call (trace w)"
proof -
  obtain ls where ls: "print_statistics w = w\<lparr>trace := trace w @ ReadCsv # map Print ls\<rparr>"
    using print_statistics_trace by blast
  have a: "filter is_search_or_sleep (map Print ls) = []" by (induction ls) simp_all
  have b: "filter is_call (map Print ls) = []" by (induction ls) simp_all
  show "store (print_statistics w) = store w" using ls by simp
  show "filter is_search_or_sleep (trace (print_statistics w)) = filter is_search_or_sleep (trace w)"
    using ls a by simp
  show "filter is_call (trace (print_statistics w)) = filter is_call (trace w)"
    using ls b by simp
qed

















text \<open>
  Claim C10. A run over an empty keyword list returns 0, leaves the Store as it was, makes no
  search, no detail fetch, no merge and no suspension, and after the closing line still
  reads the Store file for the summary and prints what it found or the error.
\<close>

theorem empty_keyword_list:
  "fst (batch_fetch_articles E (Some []) m d p w) = Inr 0
   \<and> store (snd (batch_fetch_articles E (Some []) m d p w)) = store w
   \<and> filter is_call (trace (snd (batch_fetch_articles E (Some []) m d p w))) =
       filter is_call (trace w)
   \<and> (\<exists>lines. lines \<noteq> [] \<and> trace (snd (batch_fetch_articles E (Some []) m d p w)) =
         trace w @
         (if api_key_set (NCBI_API_KEY E) then [Print LKeyFound]
          else [Print LKeyMissing, Print LKeyHint]) @
         [Print (LStart 0), Print (LDone 0 0), ReadCsv] @ map Print lines)"
proof -
  define w3 where "w3 = emit (Print (LDone 0 0)) (emit (Print (LStart 0))
     (if api_key_set (NCBI_API_KEY E) then emit (Print LKeyFound) w
      else emit (Print LKeyHint) (emit (Print LKeyMissing) w)))"
  have b: "batch_fetch_articles E (Some []) m d p w = (Inr 0, print_statistics w3)"
    by (simp add: batch_fetch_articles_def keywords_or_default_def Let_def w3_def)
  obtain ls where ls: "ls \<noteq> []"
      "print_statistics w3 = w3\<lparr>trace := trace w3 @ ReadCsv # map Print ls\<rparr>"
    using print_statistics_trace by blast
  have "trace (print_statistics w3) =
         trace w @
         (if api_key_set (NCBI_API_KEY E) then [Print LKeyFound]
          else [Print LKeyMissing, Print LKeyHint]) @
         [Print (LStart 0), Print (LDone 0 0), ReadCsv] @ map Print ls"
    using ls(2) by (simp add: w3_def emit_def)
  moreover have "store (print_statistics w3) = store w"
    by (simp add: print_statistics_quiet w3_def emit_def)
  moreover have "filter is_call (trace (print_statistics w3)) = filter is_call (trace w)"
    by (simp add: print_statistics_quiet w3_def emit_def)
  ultimately show ?thesis using b ls(1) by auto
qed








text \<open>
  Claim C2, evaluated. The Store holds one row, with identifier 1. The single keyword finds
  identifier 3 and its record is fetched and merged as the specification prescribes, so the
  Store grows by one row, from one to two. Line 117 tallies
  \<^verbatim>\<open>len(articles) - (len(updated_df) - len(articles))\<close>, that is \<open>1 - (2 - 1)\<close>, and the
  run returns 0: the tally is not the growth of the Store.
\<close>

theorem tally_is_not_the_store_delta:
  "fst (batch_fetch_articles (demo_env None offline) (Some [''c'']) 30 365 3 one_row_world) = Inr 0
   \<and> store one_row_world = Some [article_of ''1'']
   \<and> store (snd (batch_fetch_articles (demo_env None offline) (Some [''c'']) 30 365 3
        one_row_world)) = Some [article_of ''1'', article_of ''3'']"
  by code_simp


section \<open>Properties of the probes\<close>

lemma test_search_body_status:
  "fst (test_search_body E keyword max_results w) = Inr r \<Longrightarrow>
   status r \<in> {''success'', ''warning'', ''error''}"
  unfolding test_search_body_def Let_def
  by (auto split: sum.splits bool.splits if_splits)

lemma str_items_strings: "str_items (map PStr ss) = Inr ss"
  by (induction ss) simp_all

lemma map_of_key: "map_of kvs k = Some v \<Longrightarrow> k \<in> fst ` set kvs"
  by (induction kvs) (auto split: if_splits)

lemma test_search_body_shaped:
  assumes "fetch_pubmed_studies E w keyword max_results 30 = Inr (PDict outer_kvs)"
    and "map_of outer_kvs ''esearchresult'' = Some (PDict inner_kvs)"
    and "map_of inner_kvs ''idlist'' = Some ids"
  shows "test_search_body E keyword max_results w =
     (let w1 = emit (Search keyword max_results 30) w
      in if truthy ids
         then (let w2 = emit (Detail ids) w1
               in case get_pubmed_article_details E w1 ids of
                    Inl e \<Rightarrow> (Inl e, w2)
                  | Inr articles \<Rightarrow>
                      if articles \<noteq> []
                      then (Inr \<lparr>status = ''success'', message = MFetched (length articles),
                                 details = DArticles articles, pmid_list = Some ids\<rparr>, w2)
                      else (case py_join '', '' ids of
                              Inl e \<Rightarrow> (Inl e, w2)
                            | Inr joined \<Rightarrow>
                                (Inr \<lparr>status = ''warning'', message = MDetailFailed,
                                      details = DPmids joined, pmid_list = None\<rparr>, w2)))
         else (Inr \<lparr>status = ''warning'', message = MNoHits,
                    details = DKeyword keyword, pmid_list = None\<rparr>, w1))"
proof -
  have "outer_kvs \<noteq> []" using assms(2) by auto
  moreover have "''esearchresult'' \<in> fst ` set outer_kvs" using assms(2) by (rule map_of_key)
  ultimately show ?thesis
    using assms by (simp add: test_search_body_def idlist_or_empty_def Let_def)
qed

text \<open>
  Claim C8. For a search result \<^verbatim>\<open>{'esearchresult': {'idlist': ids, ...}, ...}\<close>:
  an empty identifier list gives a warning; a non-empty list of identifier strings for
  which the detail fetch returns nothing gives a warning whose details are the joined
  identifiers; a non-empty list with detail records gives a success carrying the records.
  Every exception becomes an error result whose details are the exception's message,
  wherever it is raised: by the search, by the inspection of its result, by the detail
  fetch, or by the joining of the identifiers. In all cases a result is returned and its
  status is one of the three strings.
\<close>

theorem perform_test_search_outcomes:
  "(fetch_pubmed_studies E w keyword max_results 30 = Inr (PDict outer_kvs) \<and>
    map_of outer_kvs ''esearchresult'' = Some (PDict inner_kvs) \<and>
    map_of inner_kvs ''idlist'' = Some (PList ids) \<longrightarrow>
      (ids = [] \<longrightarrow>
         status (fst (perform_test_search E keyword max_results w)) = ''warning'') \<and>
      (ids = map PStr ss \<and> ss \<noteq> [] \<and>
       get_pubmed_article_details E (emit (Search keyword max_results 30) w) (PList ids) = Inr []
       \<longrightarrow>
         status (fst (perform_test_search E keyword max_results w)) = ''warning'' \<and>
         details (fst (perform_test_search E keyword max_results w)) = DPmids (join '', '' ss)) \<and>
      (ids \<noteq> [] \<and> articles \<noteq> [] \<and>
       get_pubmed_article_details E (emit (Search keyword max_results 30) w) (PList ids) = Inr articles
       \<longrightarrow>
         status (fst (perform_test_search E keyword max_results w)) = ''success'' \<and>
         details (fst (perform_test_search E keyword max_results w)) = DArticles articles))
   \<and> (fetch_pubmed_studies E w keyword max_results 30 = Inl e \<longrightarrow>
         perform_test_search E keyword max_results w =
           (\<lparr>status = ''error'', message = MSearchError, details = DStr (str_exn e),
             pmid_list = None\<rparr>,
            emit (Search keyword max_results 30) w))
   \<and> (fetch_pubmed_studies E w keyword max_results 30 = Inr sr \<and> truthy sr \<and>
       (py_in ''esearchresult'' sr = Inl e \<or>
        py_in ''esearchresult'' sr = Inr True \<and> idlist_or_empty sr = Inl e) \<longrightarrow>
         perform_test_search E keyword max_results w =
           (\<lparr>status = ''error'', message = MSearchError, details = DStr (str_exn e),
             pmid_list = None\<rparr>,
            emit (Search keyword max_results 30) w))
   \<and> (fetch_pubmed_studies E w keyword max_results 30 = Inr sr \<and> truthy sr \<and>
       py_in ''esearchresult'' sr = Inr True \<and> idlist_or_empty sr = Inr idl \<and> truthy idl \<and>
       (get_pubmed_article_details E (emit (Search keyword max_results 30) w) idl = Inl e \<or>
        get_pubmed_article_details E (emit (Search keyword max_results 30) w) idl = Inr [] \<and>
        py_join '', '' idl = Inl e) \<longrightarrow>
         perform_test_search E keyword max_results w =
           (\<lparr>status = ''error'', message = MSearchError, details = DStr (str_exn e),
             pmid_list = None\<rparr>,
            emit (Detail idl) (emit (Search keyword max_results 30) w)))
   \<and> status (fst (perform_test_search E keyword max_results w)) \<in>
         {''success'', ''warning'', ''error''}"
proof (intro conjI impI)
  assume a: "fetch_pubmed_studies E w keyword max_results 30 = Inr (PDict outer_kvs) \<and>
    map_of outer_kvs ''esearchresult'' = Some (PDict inner_kvs) \<and>
    map_of inner_kvs ''idlist'' = Some (PList ids)"
  note shaped = test_search_body_shaped [of E w keyword max_results outer_kvs inner_kvs "PList ids"]
  {
    assume "ids = []"
    then show "status (fst (perform_test_search E keyword max_results w)) = ''warning''"
      using a shaped by (simp add: perform_test_search_def Let_def)
  }
  {
    assume b: "ids = map PStr ss \<and> ss \<noteq> [] \<and>
       get_pubmed_article_details E (emit (Search keyword max_results 30) w) (PList ids) = Inr []"
    then have r: "test_search_body E keyword max_results w =
        (Inr \<lparr>status = ''warning'', message = MDetailFailed,
              details = DPmids (join '', '' ss), pmid_list = None\<rparr>,
         emit (Detail (PList ids)) (emit (Search keyword max_results 30) w))"
      using a shaped by (auto simp: Let_def str_items_strings)
    show "status (fst (perform_test_search E keyword max_results w)) = ''warning''"
      by (simp add: perform_test_search_def r)
    show "details (fst (perform_test_search E keyword max_results w)) = DPmids (join '', '' ss)"
      by (simp add: perform_test_search_def r)
  }
  {
    assume b: "ids \<noteq> [] \<and> articles \<noteq> [] \<and>
       get_pubmed_article_details E (emit (Search keyword max_results 30) w) (PList ids) = Inr articles"
    then have r: "test_search_body E keyword max_results w =
        (Inr \<lparr>status = ''success'', message = MFetched (length articles),
              details = DArticles articles, pmid_list = Some (PList ids)\<rparr>,
         emit (Detail (PList ids)) (emit (Search keyword max_results 30) w))"
      using a shaped by (simp add: Let_def)
    show "status (fst (perform_test_search E keyword max_results w)) = ''success''"
      by (simp add: perform_test_search_def r)
    show "details (fst (perform_test_search E keyword max_results w)) = DArticles articles"
      by (simp add: perform_test_search_def r)
  }
next
  assume "fetch_pubmed_studies E w keyword max_results 30 = Inl e"
  then show "perform_test_search E keyword max_results w =
           (\<lparr>status = ''error'', message = MSearchError, details = DStr (str_exn e),
             pmid_list = None\<rparr>,
            emit (Search keyword max_results 30) w)"
    by (simp add: perform_test_search_def test_search_body_def Let_def)
next
  assume "fetch_pubmed_studies E w keyword max_results 30 = Inr sr \<and> truthy sr \<and>
       (py_in ''esearchresult'' sr = Inl e \<or>
        py_in ''esearchresult'' sr = Inr True \<and> idlist_or_empty sr = Inl e)"
  then show "perform_test_search E keyword max_results w =
           (\<lparr>status = ''error'', message = MSearchError, details = DStr (str_exn e),
             pmid_list = None\<rparr>,
            emit (Search keyword max_results 30) w)"
    by (auto simp: perform_test_search_def test_search_body_def Let_def)
next
  assume "fetch_pubmed_studies E w keyword max_results 30 = Inr sr \<and> truthy sr \<and>
       py_in ''esearchresult'' sr = Inr True \<and> idlist_or_empty sr = Inr idl \<and> truthy idl \<and>
       (get_pubmed_article_details E (emit (Search keyword max_results 30) w) idl = Inl e \<or>
        get_pubmed_article_details E (emit (Search keyword max_results 30) w) idl = Inr [] \<and>
        py_join '', '' idl = Inl e)"
  then show "perform_test_search E keyword max_results w =
           (\<lparr>status = ''error'', message = MSearchError, details = DStr (str_exn e),
             pmid_list = None\<rparr>,
            emit (Detail idl) (emit (Search keyword max_results 30) w))"
    by (auto simp: perform_test_search_def test_search_body_def Let_def)
next
  show "status (fst (perform_test_search E keyword max_results w)) \<in>
         {''success'', ''warning'', ''error''}"
  proof (cases "test_search_body E keyword max_results w")
    case (Pair r w')
    show ?thesis
    proof (cases r)
      case (Inl e)
      with Pair show ?thesis by (simp add: perform_test_search_def)
    next
      case (Inr res)
      with Pair have "fst (test_search_body E keyword max_results w) = Inr res" by simp
      then have "status res \<in> {''success'', ''warning'', ''error''}"
        by (rule test_search_body_status)
      with Pair Inr show ?thesis by (simp add: perform_test_search_def)
    qed
  qed
qed

theorem perform_test_search_outcomes_witness:
  "status (fst (perform_test_search (demo_env None offline) ''nothing'' 2 empty_world)) = ''warning''
   \<and> status (fst (perform_test_search (demo_env None offline) ''ghost'' 2 empty_world)) = ''warning''
   \<and> details (fst (perform_test_search (demo_env None offline) ''ghost'' 2 empty_world)) =
       DPmids ''0''
   \<and> status (fst (perform_test_search (demo_env None offline) ''a'' 2 empty_world)) = ''success''
   \<and> details (fst (perform_test_search (demo_env None offline) ''a'' 2 empty_world)) =
       DArticles [article_of ''1'', article_of ''2'']
   \<and> perform_test_search (demo_env None offline) ''boom'' 2 empty_world =
       (\<lparr>status = ''error'', message = MSearchError, details = DStr ''connection timed out'',
         pmid_list = None\<rparr>,
        \<lparr>store = None, trace = [Search ''boom'' 2 30]\<rparr>)
   \<and> perform_test_search (demo_env None offline) ''crash'' 2 empty_world =
       (\<lparr>status = ''error'', message = MSearchError, details = DStr ''efetch: HTTP 502'',
         pmid_list = None\<rparr>,
        \<lparr>store = None, trace = [Search ''crash'' 2 30, Detail (PList [PStr ''9''])]\<rparr>)
   \<and> perform_test_search (demo_env None offline) ''odd'' 2 empty_world =
       (\<lparr>status = ''error'', message = MSearchError,
         details = DStr ''sequence item: expected str instance'', pmid_list = None\<rparr>,
        \<lparr>store = None, trace = [Search ''odd'' 2 30, Detail (PList [PInt 7])]\<rparr>)"
  using
    perform_test_search_outcomes [where E = "demo_env None offline" and w = empty_world
      and keyword = "''nothing''" and max_results = 2
      and outer_kvs = "[(''esearchresult'', PDict [(''idlist'', PList [])])]"
      and inner_kvs = "[(''idlist'', PList [])]" and ids = "[]"]
    perform_test_search_outcomes [where E = "demo_env None offline" and w = empty_world
      and keyword = "''ghost''" and max_results = 2
      and outer_kvs = "[(''esearchresult'', PDict [(''idlist'', PList [PStr ''0''])])]"
      and inner_kvs = "[(''idlist'', PList [PStr ''0''])]" and ids = "[PStr ''0'']"
      and ss = "[''0'']"]
    perform_test_search_outcomes [where E = "demo_env None offline" and w = empty_world
      and keyword = "''a''" and max_results = 2
      and outer_kvs = "[(''esearchresult'', PDict [(''idlist'', PList [PStr ''1'', PStr ''2''])])]"
      and inner_kvs = "[(''idlist'', PList [PStr ''1'', PStr ''2''])]"
      and ids = "[PStr ''1'', PStr ''2'']"
      and articles = "[article_of ''1'', article_of ''2'']"]
    perform_test_search_outcomes [where E = "demo_env None offline" and w = empty_world
      and keyword = "''boom''" and max_results = 2
      and e = "Exn RequestException ''connection timed out''"]
    perform_test_search_outcomes [where E = "demo_env None offline" and w = empty_world
      and keyword = "''crash''" and max_results = 2
      and sr = "search_result_of (PList [PStr ''9''])" and idl = "PList [PStr ''9'']"
      and e = "Exn RequestException ''efetch: HTTP 502''"]
    perform_test_search_outcomes [where E = "demo_env None offline" and w = empty_world
      and keyword = "''odd''" and max_results = 2
      and sr = "search_result_of (PList [PInt 7])" and idl = "PList [PInt 7]"
      and e = "Exn TypeError ''sequence item: expected str instance''"]
  by (simp add: demo_env_def demo_search_def demo_detail_def search_result_of_def
      idlist_or_empty_def emit_def empty_world_def)

text \<open>
  Claim C9. Neither probe touches the Store: after \<^verbatim>\<open>test_pubmed_connection\<close> and after
  \<^verbatim>\<open>perform_test_search\<close>, whatever they returned or raised, the Store is the one
  before the call and no merge has been called.
\<close>

theorem probes_leave_store:
  "store (snd (test_pubmed_connection E w)) = store w
   \<and> filter is_merge (trace (snd (test_pubmed_connection E w))) = filter is_merge (trace w)
   \<and> store (snd (perform_test_search E keyword max_results w)) = store w
   \<and> filter is_merge (trace (snd (perform_test_search E keyword max_results w))) =
       filter is_merge (trace w)"
proof -
  have c: "snd (test_pubmed_connection E w) = emit HttpGet w"
    by (simp add: test_pubmed_connection_def Let_def split: sum.splits)
  have "\<exists>es. snd (test_search_body E keyword max_results w) = w\<lparr>trace := trace w @ es\<rparr>
      \<and> filter is_merge es = []"
    unfolding test_search_body_def Let_def emit_def
    by (auto split: sum.splits bool.splits)
  then obtain es where es: "snd (test_search_body E keyword max_results w) = w\<lparr>trace := trace w @ es\<rparr>"
      "filter is_merge es = []" by blast
  have "snd (perform_test_search E keyword max_results w) =
      snd (test_search_body E keyword max_results w)"
    by (cases "test_search_body E keyword max_results w")
       (simp add: perform_test_search_def split: sum.splits)
  with es c show ?thesis by (simp add: emit_def)
qed

text \<open>
  Where the probe does classify: a response whose body decodes to an object in which the
  key, if present, holds an object. A transport failure, a 4xx or 5xx status and a body
  that is not JSON give an error; the key decides between success and warning.
  (\<^verbatim>\<open>response.json()\<close> of recent versions of the HTTP library raises an exception that is
  both a RequestException and a JSONDecodeError; the first clause then answers, with the
  same status.)
\<close>

lemma connection_probe_on_objects:
  assumes "requests_get E w = Inr r"
    and "\<not> (400 \<le> status_code r \<and> status_code r < 600)"
    and "json_body r = Some (PDict kvs)"
    and "map_of kvs ''einforesult'' = None \<or> (\<exists>info. map_of kvs ''einforesult'' = Some (PDict info))"
  shows "\<exists>res. fst (test_pubmed_connection E w) = Inr res \<and>
     status res = (if ''einforesult'' \<in> fst ` set kvs then ''success'' else ''warning'')"
  using assms
  by (auto simp: test_pubmed_connection_def connection_body_def raise_for_status_def Let_def
      map_of_eq_None_iff dest: map_of_key)

lemma connection_probe_errors:
  "requests_get E w = Inl (Exn RequestException msg) \<Longrightarrow>
     \<exists>res. fst (test_pubmed_connection E w) = Inr res \<and> status res = ''error''"
  "requests_get E w = Inr r \<Longrightarrow> 400 \<le> status_code r \<and> status_code r < 600 \<Longrightarrow>
     \<exists>res. fst (test_pubmed_connection E w) = Inr res \<and> status res = ''error''"
  "requests_get E w = Inr r \<Longrightarrow> \<not> (400 \<le> status_code r \<and> status_code r < 600) \<Longrightarrow>
   json_body r = None \<Longrightarrow>
     \<exists>res. fst (test_pubmed_connection E w) = Inr res \<and> status res = ''error''"
  by (simp_all add: test_pubmed_connection_def connection_body_def connection_except_def
      raise_for_status_def Let_def)

text \<open>
  Claim C7, evaluated. The request succeeds with status 200 and a body that is valid JSON.
  For the body \<^verbatim>\<open>null\<close> the membership test of line 20 raises a TypeError; for the body
  \<^verbatim>\<open>{"einforesult": null}\<close> the key is present and the chained \<^verbatim>\<open>get\<close> of line 24
  raises an AttributeError. Neither is a RequestException or a JSONDecodeError, so the
  exception leaves \<^verbatim>\<open>test_pubmed_connection\<close> and no tagged result is returned.
\<close>

theorem connection_probe_raises:
  "fst (test_pubmed_connection (demo_env None (Inr (ok_response ''null'' (Some PNone))))
        empty_world) =
     Inl (Exn TypeError ''argument of type NoneType is not iterable'')
   \<and> fst (test_pubmed_connection
        (demo_env None (Inr (ok_response ''{\"einforesult\": null}''
           (Some (PDict [(''einforesult'', PNone)]))))) empty_world) =
     Inl (Exn AttributeError ''NoneType object has no attribute get'')"
  by code_simp

end
